theory Spec2Isabelle
  imports Complex_Main
begin

section \<open>Coupon management: data model\<close>

text \<open>
  The models of \<^verbatim>\<open>src/main.py\<close>. A Python \<^verbatim>\<open>float\<close> is read as a real number:
  the finite floats, with exact arithmetic (\<^verbatim>\<open>inf\<close> and \<^verbatim>\<open>nan\<close> are not values of the
  models, and no operation rounds or overflows). A Python \<^verbatim>\<open>int\<close> is read as an integer, an
  \<^verbatim>\<open>Optional[t]\<close> field as an option, and a \<^verbatim>\<open>date\<close> as its proleptic Gregorian
  ordinal (\<^verbatim>\<open>date.toordinal()\<close>), on which \<^verbatim>\<open><=\<close> is the order of dates.
\<close>

type_synonym date = int

datatype DiscountType = FLAT | PERCENT

record Eligibility =
  allowedUserTiers :: "string list option"
  minLifetimeSpend :: "real option"
  minOrdersPlaced :: "int option"
  firstOrderOnly :: "bool option"
  allowedCountries :: "string list option"
  minCartValue :: "real option"
  applicableCategories :: "string list option"
  excludedCategories :: "string list option"
  minItemsCount :: "int option"

record Coupon =
  code :: string
  description :: "string option"
  discountType :: DiscountType
  discountValue :: real
  maxDiscountAmount :: "real option"
  startDate :: date
  endDate :: date
  usageLimitPerUser :: "int option"
  eligibility :: "Eligibility option"

record UserContext =
  userId :: string
  userTier :: "string option"
  country :: "string option"
  lifetimeSpend :: real
  ordersPlaced :: int

record CartItem =
  productId :: string
  category :: "string option"
  unitPrice :: real
  quantity :: int

record Cart =
  items :: "CartItem list"

record BestCouponRequest =
  user :: UserContext
  cart :: Cart

section \<open>In-memory storage\<close>

text \<open>
  \<^verbatim>\<open>coupons\<close> is a Python dict, whose enumeration order is the insertion order: an
  association list with the operations of a dict. \<^verbatim>\<open>usage_counter\<close> is only ever
  looked up by key: a map of maps.
\<close>

type_synonym usage = "string \<rightharpoonup> (string \<rightharpoonup> int)"

record state =
  coupons :: "(string \<times> Coupon) list"
  usage_counter :: usage

definition init_state :: state where
  "init_state = \<lparr>coupons = [], usage_counter = Map.empty\<rparr>"

definition dict_keys :: "('k \<times> 'v) list \<Rightarrow> 'k list" where
  "dict_keys d = map fst d"

definition dict_values :: "('k \<times> 'v) list \<Rightarrow> 'v list" where
  "dict_values d = map snd d"

definition dict_contains :: "'k \<Rightarrow> ('k \<times> 'v) list \<Rightarrow> bool" where
  "dict_contains k d = (k \<in> set (dict_keys d))"

text \<open>\<^verbatim>\<open>d[k] = v\<close>: an existing key keeps its place, a new key goes last.\<close>

fun dict_set :: "('k \<times> 'v) list \<Rightarrow> 'k \<Rightarrow> 'v \<Rightarrow> ('k \<times> 'v) list" where
  "dict_set [] k v = [(k, v)]"
| "dict_set (p # ps) k v = (if fst p = k then (k, v) # ps else p # dict_set ps k v)"

section \<open>Helper functions\<close>

text \<open>\<^verbatim>\<open>cart_total\<close>: the sum of \<^verbatim>\<open>unitPrice * quantity\<close> over the items.\<close>

definition cart_total :: "Cart \<Rightarrow> real" where
  "cart_total c = sum_list (map (\<lambda>i. unitPrice i * of_int (quantity i)) (items c))"

text \<open>
  \<^verbatim>\<open>usage_counter.get(coupon.code, {}).get(user.userId, 0)\<close>
\<close>

definition used_count :: "usage \<Rightarrow> string \<Rightarrow> string \<Rightarrow> int" where
  "used_count uc k uid =
     (case uc k of None \<Rightarrow> 0
      | Some m \<Rightarrow> (case m uid of None \<Rightarrow> 0 | Some n \<Rightarrow> n))"

text \<open>
  \<^verbatim>\<open>x not in xs\<close> for an optional string \<^verbatim>\<open>x\<close> and a list of strings: \<^verbatim>\<open>None\<close> is
  in no such list.
\<close>

definition not_in :: "string option \<Rightarrow> string list \<Rightarrow> bool" where
  "not_in x xs = (case x of None \<Rightarrow> True | Some y \<Rightarrow> y \<notin> set xs)"

text \<open>
  \<^verbatim>\<open>{i.category for i in cart.items}\<close>, and the truth value of its intersection with
  a list of strings (a set is truthy when it is not empty).
\<close>

definition categories :: "Cart \<Rightarrow> string option set" where
  "categories c = set (map category (items c))"

definition intersects :: "string option set \<Rightarrow> string list \<Rightarrow> bool" where
  "intersects S xs = (S \<inter> set (map Some xs) \<noteq> {})"

text \<open>
  The body of \<^verbatim>\<open>if e:\<close> in \<^verbatim>\<open>eligible\<close> (lines 87 to 115): \<open>False\<close> when one of
  its nine tests returns \<^verbatim>\<open>False\<close>, \<open>True\<close> when control leaves the block. A test
  \<^verbatim>\<open>e.f and cond\<close> runs \<^verbatim>\<open>cond\<close> only for a truthy \<^verbatim>\<open>e.f\<close>: not \<^verbatim>\<open>None\<close>, and not
  \<^verbatim>\<open>0\<close>, \<^verbatim>\<open>[]\<close> or \<^verbatim>\<open>False\<close>.
\<close>

definition rules_pass :: "Eligibility \<Rightarrow> UserContext \<Rightarrow> Cart \<Rightarrow> bool" where
  "rules_pass e u c =
     (if (case allowedUserTiers e of None \<Rightarrow> False
          | Some ts \<Rightarrow> ts \<noteq> [] \<and> not_in (userTier u) ts) then False
      else if (case minLifetimeSpend e of None \<Rightarrow> False
          | Some m \<Rightarrow> m \<noteq> 0 \<and> lifetimeSpend u < m) then False
      else if (case minOrdersPlaced e of None \<Rightarrow> False
          | Some m \<Rightarrow> m \<noteq> 0 \<and> ordersPlaced u < m) then False
      else if (case firstOrderOnly e of None \<Rightarrow> False
          | Some b \<Rightarrow> b \<and> ordersPlaced u > 0) then False
      else if (case allowedCountries e of None \<Rightarrow> False
          | Some cs \<Rightarrow> cs \<noteq> [] \<and> not_in (country u) cs) then False
      else if (case minCartValue e of None \<Rightarrow> False
          | Some m \<Rightarrow> m \<noteq> 0 \<and> cart_total c < m) then False
      else if (case applicableCategories e of None \<Rightarrow> False
          | Some cs \<Rightarrow> cs \<noteq> [] \<and> \<not> intersects (categories c) cs) then False
      else if (case excludedCategories e of None \<Rightarrow> False
          | Some cs \<Rightarrow> cs \<noteq> [] \<and> intersects (categories c) cs) then False
      else if (case minItemsCount e of None \<Rightarrow> False
          | Some m \<Rightarrow> m \<noteq> 0 \<and> sum_list (map quantity (items c)) < m) then False
      else True)"

text \<open>
  \<^verbatim>\<open>eligible\<close>. The source reads \<^verbatim>\<open>date.today()\<close> and the global
  \<^verbatim>\<open>usage_counter\<close>; here both are arguments. A pydantic model object is always
  truthy, so \<^verbatim>\<open>if e:\<close> tests that the rule set is not \<^verbatim>\<open>None\<close>.
\<close>

definition eligible :: "Coupon \<Rightarrow> UserContext \<Rightarrow> Cart \<Rightarrow> date \<Rightarrow> usage \<Rightarrow> bool" where
  "eligible coupon u c today uc =
     (if \<not> (startDate coupon \<le> today \<and> today \<le> endDate coupon) then False
      else if (case eligibility coupon of None \<Rightarrow> False
          | Some e \<Rightarrow> \<not> rules_pass e u c) then False
      else if (case usageLimitPerUser coupon of None \<Rightarrow> False
          | Some n \<Rightarrow> n \<noteq> 0 \<and> used_count uc (code coupon) (userId u) \<ge> n) then False
      else True)"

text \<open>
  Python's \<^verbatim>\<open>min(a, b)\<close> returns \<^verbatim>\<open>b\<close> when \<^verbatim>\<open>b < a\<close> and \<^verbatim>\<open>a\<close> otherwise.
\<close>

definition py_min :: "real \<Rightarrow> real \<Rightarrow> real" where
  "py_min a b = (if b < a then b else a)"

definition get_discount :: "Coupon \<Rightarrow> real \<Rightarrow> real" where
  "get_discount coupon tot =
     (if discountType coupon = FLAT then discountValue coupon
      else
        (let percent = (discountValue coupon / 100) * tot
         in (case maxDiscountAmount coupon of
               None \<Rightarrow> percent
             | Some m \<Rightarrow> if m \<noteq> 0 then py_min percent m else percent)))"

text \<open>
  \<^verbatim>\<open>get_discount\<close> with the rounding of its two float operations written out: \<open>rnd\<close>
  rounds the quotient \<^verbatim>\<open>discountValue / 100\<close> and the product with the total. With the
  identity for \<open>rnd\<close> it is \<open>get_discount\<close>.
\<close>

definition get_discount_rounded :: "(real \<Rightarrow> real) \<Rightarrow> Coupon \<Rightarrow> real \<Rightarrow> real" where
  "get_discount_rounded rnd coupon tot =
     (if discountType coupon = FLAT then discountValue coupon
      else
        (let percent = rnd (rnd (discountValue coupon / 100) * tot)
         in (case maxDiscountAmount coupon of
               None \<Rightarrow> percent
             | Some m \<Rightarrow> if m \<noteq> 0 then py_min percent m else percent)))"

section \<open>Routes\<close>

datatype error = HTTPException nat string

datatype create_response = Created string Coupon

text \<open>
  Every route takes the storage and returns its answer with the storage after the call.
\<close>

definition create_coupon :: "Coupon \<Rightarrow> state \<Rightarrow> (error + create_response) \<times> state" where
  "create_coupon coupon s =
     (if dict_contains (code coupon) (coupons s)
      then (Inl (HTTPException 400 ''Coupon already exists''), s)
      else (Inr (Created ''Coupon created'' coupon),
            s\<lparr>coupons := dict_set (coupons s) (code coupon) coupon,
              usage_counter := (usage_counter s)(code coupon \<mapsto> Map.empty)\<rparr>))"

definition list_all :: "state \<Rightarrow> Coupon list \<times> state" where
  "list_all s = (dict_values (coupons s), s)"

text \<open>
  The loop of \<^verbatim>\<open>best_coupon\<close> over \<^verbatim>\<open>coupons.values()\<close>, with the pair
  \<^verbatim>\<open>(best, best_discount)\<close> as its accumulator.
\<close>

fun best_loop ::
  "Coupon list \<Rightarrow> UserContext \<Rightarrow> Cart \<Rightarrow> date \<Rightarrow> usage \<Rightarrow> real
     \<Rightarrow> Coupon option \<times> real \<Rightarrow> Coupon option \<times> real" where
  "best_loop [] u c today uc tot acc = acc"
| "best_loop (x # xs) u c today uc tot (best, best_discount) =
     (if eligible x u c today uc then
        (let disc = get_discount x tot
         in if disc > best_discount
            then best_loop xs u c today uc tot (Some x, disc)
            else best_loop xs u c today uc tot (best, best_discount))
      else best_loop xs u c today uc tot (best, best_discount))"

text \<open>
  The answer of \<^verbatim>\<open>best_coupon\<close>: \<^verbatim>\<open>{"coupon": None}\<close>, or the code, the discount
  and the final price.
\<close>

datatype best_response = NoCoupon | Best string real real

definition best_coupon :: "BestCouponRequest \<Rightarrow> date \<Rightarrow> state \<Rightarrow> best_response \<times> state" where
  "best_coupon req today s =
     (let tot = cart_total (cart req);
          r = best_loop (dict_values (coupons s)) (user req) (cart req) today
                (usage_counter s) tot (None, 0)
      in (case fst r of
            None \<Rightarrow> NoCoupon
          | Some b \<Rightarrow> Best (code b) (snd r) (tot - snd r), s))"

text \<open>A request to the service, and the storage after a sequence of requests.\<close>

datatype request =
  CreateCoupon Coupon
| ListAll
| BestCoupon BestCouponRequest date

fun handle :: "request \<Rightarrow> state \<Rightarrow> state" where
  "handle (CreateCoupon coupon) s = snd (create_coupon coupon s)"
| "handle ListAll s = snd (list_all s)"
| "handle (BestCoupon req today) s = snd (best_coupon req today s)"

fun run :: "request list \<Rightarrow> state \<Rightarrow> state" where
  "run [] s = s"
| "run (r # rs) s = run rs (handle r s)"

section \<open>The selection policy in the words of the specification\<close>

text \<open>
  ``The eligible coupon producing the strictly highest computed discount, first-enumerated
  wins ties'': position \<open>i\<close> of the enumeration holds an eligible coupon, no eligible
  coupon has a greater discount, and every eligible coupon before it has a smaller one.
\<close>

definition spec_first_best :: "('a \<Rightarrow> bool) \<Rightarrow> ('a \<Rightarrow> real) \<Rightarrow> 'a list \<Rightarrow> nat \<Rightarrow> bool" where
  "spec_first_best el dc xs i =
     (i < length xs \<and> el (xs ! i) \<and>
      (\<forall>j < length xs. el (xs ! j) \<longrightarrow> dc (xs ! j) \<le> dc (xs ! i)) \<and>
      (\<forall>j < i. el (xs ! j) \<longrightarrow> dc (xs ! j) < dc (xs ! i)))"

section \<open>Example data\<close>

text \<open>
  A coupon valid from day 1 to day 10 with no cap, no usage limit and no rule set; a rule
  set with every rule absent; a user; a cart of two books at 25; a catalog of two flat
  coupons of the same value.
\<close>

definition ex_coupon :: "string \<Rightarrow> DiscountType \<Rightarrow> real \<Rightarrow> Coupon" where
  "ex_coupon k t v =
     \<lparr>code = k, description = None, discountType = t, discountValue = v,
      maxDiscountAmount = None, startDate = 1, endDate = 10, usageLimitPerUser = None,
      eligibility = None\<rparr>"

definition ex_rules :: Eligibility where
  "ex_rules =
     \<lparr>allowedUserTiers = None, minLifetimeSpend = None, minOrdersPlaced = None,
      firstOrderOnly = None, allowedCountries = None, minCartValue = None,
      applicableCategories = None, excludedCategories = None, minItemsCount = None\<rparr>"

definition ex_user :: UserContext where
  "ex_user =
     \<lparr>userId = ''u1'', userTier = Some ''GOLD'', country = Some ''IN'',
      lifetimeSpend = 0, ordersPlaced = 0\<rparr>"

definition ex_cart :: Cart where
  "ex_cart =
     \<lparr>items = [\<lparr>productId = ''p1'', category = Some ''books'', unitPrice = 25,
               quantity = 2\<rparr>]\<rparr>"

definition ex_state :: state where
  "ex_state =
     \<lparr>coupons = [(''A'', ex_coupon ''A'' FLAT 10), (''B'', ex_coupon ''B'' FLAT 10)],
      usage_counter = [''A'' \<mapsto> Map.empty, ''B'' \<mapsto> Map.empty]\<rparr>"

definition ex_request :: BestCouponRequest where
  "ex_request = \<lparr>user = ex_user, cart = ex_cart\<rparr>"

section \<open>The selection loop\<close>

lemma best_loop_Cons:
  "best_loop (x # xs) u c today uc tot (b, bd) =
     best_loop xs u c today uc tot
       (if eligible x u c today uc \<and> bd < get_discount x tot
        then (Some x, get_discount x tot) else (b, bd))"
  by (simp add: Let_def)

lemma spec_first_best_Cons_0:
  "el x \<Longrightarrow> (\<And>j. j < length xs \<Longrightarrow> el (xs ! j) \<Longrightarrow> dc (xs ! j) \<le> dc x)
     \<Longrightarrow> spec_first_best el dc (x # xs) 0"
  by (simp add: spec_first_best_def All_less_Suc2)

lemma spec_first_best_Cons_Suc:
  "spec_first_best el dc xs i \<Longrightarrow> (el x \<Longrightarrow> dc x < dc (xs ! i))
     \<Longrightarrow> spec_first_best el dc (x # xs) (Suc i)"
  by (auto simp: spec_first_best_def All_less_Suc2)

lemma best_loop_index:
  "(best_loop xs u c today uc tot (b, bd) = (b, bd) \<and>
      (\<forall>j < length xs. eligible (xs ! j) u c today uc \<longrightarrow> get_discount (xs ! j) tot \<le> bd)) \<or>
   (\<exists>i. spec_first_best (\<lambda>x. eligible x u c today uc) (\<lambda>x. get_discount x tot) xs i \<and>
      bd < get_discount (xs ! i) tot \<and>
      best_loop xs u c today uc tot (b, bd) = (Some (xs ! i), get_discount (xs ! i) tot))"
  (is "?keep xs b bd \<or> ?pick xs b bd")
proof (induction xs arbitrary: b bd)
  case Nil
  then show ?case by simp
next
  case (Cons x xs)
  let ?el = "\<lambda>x. eligible x u c today uc"
  let ?dc = "\<lambda>x. get_discount x tot"
  show ?case
  proof (cases "?el x \<and> bd < ?dc x")
    case True
    then have step: "best_loop (x # xs) u c today uc tot (b, bd)
                       = best_loop xs u c today uc tot (Some x, ?dc x)"
      by (simp add: best_loop_Cons)
    from Cons.IH [of "Some x" "?dc x"] show ?thesis
    proof
      assume k: "?keep xs (Some x) (?dc x)"
      then have "spec_first_best ?el ?dc (x # xs) 0"
        using True by (intro spec_first_best_Cons_0) simp_all
      with k step True have "?pick (x # xs) b bd"
        by (intro exI [of _ 0]) simp
      then show ?thesis ..
    next
      assume "?pick xs (Some x) (?dc x)"
      then obtain i where i: "spec_first_best ?el ?dc xs i" "?dc x < ?dc (xs ! i)"
        "best_loop xs u c today uc tot (Some x, ?dc x) = (Some (xs ! i), ?dc (xs ! i))"
        by blast
      have "spec_first_best ?el ?dc (x # xs) (Suc i)"
        using i by (intro spec_first_best_Cons_Suc) simp_all
      with i step True have "?pick (x # xs) b bd"
        by (intro exI [of _ "Suc i"]) simp
      then show ?thesis ..
    qed
  next
    case False
    then have step: "best_loop (x # xs) u c today uc tot (b, bd)
                       = best_loop xs u c today uc tot (b, bd)"
      by (simp add: best_loop_Cons)
    from Cons.IH [of b bd] show ?thesis
    proof
      assume "?keep xs b bd"
      with step False have "?keep (x # xs) b bd"
        by (auto simp: All_less_Suc2)
      then show ?thesis ..
    next
      assume "?pick xs b bd"
      then obtain i where i: "spec_first_best ?el ?dc xs i" "bd < ?dc (xs ! i)"
        "best_loop xs u c today uc tot (b, bd) = (Some (xs ! i), ?dc (xs ! i))"
        by blast
      have "spec_first_best ?el ?dc (x # xs) (Suc i)"
        using i False by (intro spec_first_best_Cons_Suc) auto
      with i step have "?pick (x # xs) b bd"
        by (intro exI [of _ "Suc i"]) simp
      then show ?thesis ..
    qed
  qed
qed

lemma spec_first_best_unique:
  "spec_first_best el dc xs i \<Longrightarrow> spec_first_best el dc xs j \<Longrightarrow> i = j"
  unfolding spec_first_best_def
  by (metis linorder_neqE_nat not_less)


section \<open>Best-coupon selection\<close>

text \<open>
  C1. The loop of \<^verbatim>\<open>best_coupon\<close> replaces its running best, which starts as none with
  discount 0, only by an eligible coupon whose discount is strictly greater. So the answer
  is the first position of the catalog that holds an eligible coupon of the greatest
  discount, when that discount is positive; every answer that names a coupon has a
  positive discount and names such a first position; of two eligible coupons with the
  same discount the later one is never the answer, in a catalog of distinct codes;
  and when no eligible coupon has a positive discount the answer is none.
\<close>

theorem best_coupon_first_best:
  assumes vs: "vs = dict_values (coupons s)"
    and el: "el = (\<lambda>x. eligible x (user req) (cart req) today (usage_counter s))"
    and dc: "dc = (\<lambda>x. get_discount x (cart_total (cart req)))"
  shows
    "best_loop (x # xs) u c today uc tot (b, bd) =
       best_loop xs u c today uc tot
         (if eligible x u c today uc \<and> bd < get_discount x tot
          then (Some x, get_discount x tot) else (b, bd)) \<and>
     (spec_first_best el dc vs i \<and> 0 < dc (vs ! i) \<longrightarrow>
        fst (best_coupon req today s) =
          Best (code (vs ! i)) (dc (vs ! i)) (cart_total (cart req) - dc (vs ! i))) \<and>
     (fst (best_coupon req today s) = Best k d f \<longrightarrow>
        0 < d \<and> (\<exists>m. spec_first_best el dc vs m \<and> k = code (vs ! m) \<and> d = dc (vs ! m))) \<and>
     (distinct (map code vs) \<and> p < q \<and> q < length vs \<and> el (vs ! p) \<and> el (vs ! q) \<and>
      dc (vs ! p) = dc (vs ! q) \<longrightarrow>
        fst (best_coupon req today s) \<noteq> Best (code (vs ! q)) d' f') \<and>
     ((\<forall>y \<in> set vs. el y \<longrightarrow> dc y \<le> 0) \<longrightarrow> fst (best_coupon req today s) = NoCoupon)"
    (is "?step \<and> ?first \<and> ?positive \<and> ?tie \<and> ?none")
proof -
  let ?r = "best_loop vs (user req) (cart req) today (usage_counter s)
              (cart_total (cart req)) (None, 0)"
  let ?resp = "fst (best_coupon req today s)"
  have resp: "?resp =
                (case fst ?r of None \<Rightarrow> NoCoupon
                 | Some b \<Rightarrow> Best (code b) (snd ?r) (cart_total (cart req) - snd ?r))"
    unfolding vs by (simp add: best_coupon_def Let_def)
  have cases: "(?r = (None, 0) \<and> (\<forall>j < length vs. el (vs ! j) \<longrightarrow> dc (vs ! j) \<le> 0)) \<or>
               (\<exists>m. spec_first_best el dc vs m \<and> 0 < dc (vs ! m) \<and>
                  ?r = (Some (vs ! m), dc (vs ! m)))"
    using best_loop_index [of vs "user req" "cart req" today "usage_counter s"
        "cart_total (cart req)" None 0]
    by (simp add: el dc)
  have step: ?step by (rule best_loop_Cons)
  from cases have rest: "?first \<and> ?positive \<and> ?tie \<and> ?none"
  proof
    assume keep: "?r = (None, 0) \<and> (\<forall>j < length vs. el (vs ! j) \<longrightarrow> dc (vs ! j) \<le> 0)"
    then have none: "?resp = NoCoupon" by (simp add: resp)
    have "\<not> (spec_first_best el dc vs i \<and> 0 < dc (vs ! i))"
      using keep by (auto simp: spec_first_best_def)
    then have ?first by blast
    moreover have ?positive using none by simp
    moreover have ?tie using none by simp
    moreover have ?none using none by simp
    ultimately show ?thesis by blast
  next
    assume "\<exists>m. spec_first_best el dc vs m \<and> 0 < dc (vs ! m) \<and>
              ?r = (Some (vs ! m), dc (vs ! m))"
    then obtain m where m: "spec_first_best el dc vs m" "0 < dc (vs ! m)"
      and r: "?r = (Some (vs ! m), dc (vs ! m))"
      by blast
    have best: "?resp = Best (code (vs ! m)) (dc (vs ! m)) (cart_total (cart req) - dc (vs ! m))"
      by (simp add: resp r)
    have mlen: "m < length vs" and mel: "el (vs ! m)"
      and mfirst: "\<And>j. j < m \<Longrightarrow> el (vs ! j) \<Longrightarrow> dc (vs ! j) < dc (vs ! m)"
      using m(1) by (simp_all add: spec_first_best_def)
    have ?first
    proof
      assume "spec_first_best el dc vs i \<and> 0 < dc (vs ! i)"
      then have "i = m" using m(1) by (blast intro: spec_first_best_unique)
      then show "?resp = Best (code (vs ! i)) (dc (vs ! i)) (cart_total (cart req) - dc (vs ! i))"
        using best by simp
    qed
    moreover have ?positive using best m by auto
    moreover have ?tie
    proof (intro impI notI)
      assume h: "distinct (map code vs) \<and> p < q \<and> q < length vs \<and> el (vs ! p) \<and> el (vs ! q) \<and>
                 dc (vs ! p) = dc (vs ! q)"
        and eq: "?resp = Best (code (vs ! q)) d' f'"
      from eq best have "code (vs ! m) = code (vs ! q)" by simp
      then have "map code vs ! m = map code vs ! q" using mlen h by simp
      moreover have "distinct (map code vs)" "m < length (map code vs)"
        "q < length (map code vs)"
        using h mlen by simp_all
      ultimately have "m = q" by (simp only: nth_eq_iff_index_eq)
      then have "dc (vs ! p) < dc (vs ! q)" using mfirst [of p] h by simp
      then show False using h by simp
    qed
    moreover have ?none
    proof
      assume "\<forall>y \<in> set vs. el y \<longrightarrow> dc y \<le> 0"
      then have "dc (vs ! m) \<le> 0" using mlen mel by simp
      then show "?resp = NoCoupon" using m(2) by simp
    qed
    ultimately show ?thesis by blast
  qed
  from step rest show ?thesis by blast
qed

theorem best_coupon_first_best_witness:
  "spec_first_best (\<lambda>x. eligible x (user ex_request) (cart ex_request) 5 (usage_counter ex_state))
     (\<lambda>x. get_discount x (cart_total (cart ex_request))) (dict_values (coupons ex_state)) 0 \<and>
   fst (best_coupon ex_request 5 ex_state) = Best ''A'' 10 40 \<and>
   fst (best_coupon ex_request 5 ex_state) \<noteq> Best ''B'' 10 40"
proof -
  let ?el = "\<lambda>x. eligible x (user ex_request) (cart ex_request) 5 (usage_counter ex_state)"
  let ?dc = "\<lambda>x. get_discount x (cart_total (cart ex_request))"
  let ?vs = "dict_values (coupons ex_state)"
  have vs: "?vs = [ex_coupon ''A'' FLAT 10, ex_coupon ''B'' FLAT 10]"
    by (simp add: ex_state_def dict_values_def)
  have el: "?el (ex_coupon k FLAT 10)" for k
    by (simp add: eligible_def ex_coupon_def)
  have dc: "get_discount (ex_coupon k FLAT 10) t = 10" for k t
    by (simp add: get_discount_def ex_coupon_def)
  have tot: "cart_total (cart ex_request) = 50"
    by (simp add: cart_total_def ex_request_def ex_cart_def)
  have first: "spec_first_best ?el ?dc ?vs 0"
    unfolding vs spec_first_best_def by (simp add: el dc All_less_Suc2)
  note inst = best_coupon_first_best [where s = ex_state and req = ex_request and today = 5
      and i = 0 and p = 0 and q = 1 and d' = 10 and f' = 40, OF refl refl refl]
  have v0: "?vs ! 0 = ex_coupon ''A'' FLAT 10" and v1: "?vs ! 1 = ex_coupon ''B'' FLAT 10"
    and len: "length ?vs = 2"
    by (simp_all add: vs)
  have codes: "code (ex_coupon k FLAT 10) = k" for k
    by (simp add: ex_coupon_def)
  have "first_hyp": "spec_first_best ?el ?dc ?vs 0 \<and> 0 < ?dc (?vs ! 0)"
    using first by (simp add: v0 dc)
  have "fst (best_coupon ex_request 5 ex_state) =
          Best (code (?vs ! 0)) (?dc (?vs ! 0)) (cart_total (cart ex_request) - ?dc (?vs ! 0))"
    using inst [THEN conjunct2, THEN conjunct1] first_hyp by (rule mp)
  then have "fst (best_coupon ex_request 5 ex_state) = Best ''A'' 10 40"
    by (simp add: v0 dc codes tot)
  moreover have "distinct (map code ?vs) \<and> (0::nat) < 1 \<and> 1 < length ?vs \<and>
      ?el (?vs ! 0) \<and> ?el (?vs ! 1) \<and> ?dc (?vs ! 0) = ?dc (?vs ! 1)"
    by (simp add: vs el dc codes)
  then have "fst (best_coupon ex_request 5 ex_state) \<noteq> Best (code (?vs ! 1)) 10 40"
    using inst [THEN conjunct2, THEN conjunct2, THEN conjunct2, THEN conjunct1] by (rule rev_mp)
  then have "fst (best_coupon ex_request 5 ex_state) \<noteq> Best ''B'' 10 40"
    by (simp add: vs codes)
  ultimately show ?thesis using first by simp
qed

section \<open>Eligibility\<close>

text \<open>
  The early returns of \<^verbatim>\<open>eligible\<close> as one conjunction: the function returns
  \<^verbatim>\<open>True\<close> exactly when none of its tests fires.
\<close>

lemma rules_pass_conj:
  "rules_pass e u c =
     (\<not> (case allowedUserTiers e of None \<Rightarrow> False
          | Some ts \<Rightarrow> ts \<noteq> [] \<and> not_in (userTier u) ts) \<and>
      \<not> (case minLifetimeSpend e of None \<Rightarrow> False
          | Some m \<Rightarrow> m \<noteq> 0 \<and> lifetimeSpend u < m) \<and>
      \<not> (case minOrdersPlaced e of None \<Rightarrow> False
          | Some m \<Rightarrow> m \<noteq> 0 \<and> ordersPlaced u < m) \<and>
      \<not> (case firstOrderOnly e of None \<Rightarrow> False
          | Some b \<Rightarrow> b \<and> ordersPlaced u > 0) \<and>
      \<not> (case allowedCountries e of None \<Rightarrow> False
          | Some cs \<Rightarrow> cs \<noteq> [] \<and> not_in (country u) cs) \<and>
      \<not> (case minCartValue e of None \<Rightarrow> False
          | Some m \<Rightarrow> m \<noteq> 0 \<and> cart_total c < m) \<and>
      \<not> (case applicableCategories e of None \<Rightarrow> False
          | Some cs \<Rightarrow> cs \<noteq> [] \<and> \<not> intersects (categories c) cs) \<and>
      \<not> (case excludedCategories e of None \<Rightarrow> False
          | Some cs \<Rightarrow> cs \<noteq> [] \<and> intersects (categories c) cs) \<and>
      \<not> (case minItemsCount e of None \<Rightarrow> False
          | Some m \<Rightarrow> m \<noteq> 0 \<and> sum_list (map quantity (items c)) < m))"
  unfolding rules_pass_def if_bool_eq_conj by blast

lemma eligible_conj:
  "eligible coupon u c today uc =
     (startDate coupon \<le> today \<and> today \<le> endDate coupon \<and>
      \<not> (case eligibility coupon of None \<Rightarrow> False | Some e \<Rightarrow> \<not> rules_pass e u c) \<and>
      \<not> (case usageLimitPerUser coupon of None \<Rightarrow> False
          | Some n \<Rightarrow> n \<noteq> 0 \<and> used_count uc (code coupon) (userId u) \<ge> n))"
  unfolding eligible_def if_bool_eq_conj by blast

text \<open>
  The rules at work on the example cart of books: a coupon that excludes books is not
  eligible; one that excludes toys, applies to toys or books, and asks for the user's
  tier and country, a cart of 50 and two items is; and a user with no tier fails a tier
  rule.
\<close>

lemma excluded_categories_example:
  "\<not> eligible
      ((ex_coupon ''X'' FLAT 10)\<lparr>eligibility := Some (ex_rules\<lparr>excludedCategories := Some [''books'']\<rparr>)\<rparr>)
      ex_user ex_cart 5 (usage_counter ex_state) \<and>
   eligible
      ((ex_coupon ''X'' FLAT 10)\<lparr>eligibility := Some (ex_rules\<lparr>excludedCategories := Some [''toys''],
         applicableCategories := Some [''toys'', ''books''], allowedUserTiers := Some [''GOLD''],
         allowedCountries := Some [''IN''], minCartValue := Some 50, minItemsCount := Some 2\<rparr>)\<rparr>)
      ex_user ex_cart 5 (usage_counter ex_state) \<and>
   \<not> eligible
      ((ex_coupon ''X'' FLAT 10)\<lparr>eligibility := Some (ex_rules\<lparr>allowedUserTiers := Some [''GOLD'']\<rparr>)\<rparr>)
      (ex_user\<lparr>userTier := None\<rparr>) ex_cart 5 (usage_counter ex_state)"
  by (simp add: eligible_conj rules_pass_conj categories_def intersects_def not_in_def
      cart_total_def ex_coupon_def ex_rules_def ex_user_def ex_cart_def)

text \<open>
  A limit of 0 is falsy, so \<^verbatim>\<open>if coupon.usageLimitPerUser:\<close> skips the test: the limit is
  not set, and the coupon is eligible at every count.
\<close>

lemma usage_limit_zero_is_unlimited:
  "usageLimitPerUser ((ex_coupon ''A'' FLAT 10)\<lparr>usageLimitPerUser := Some 0\<rparr>) = Some 0 \<and>
   eligible ((ex_coupon ''A'' FLAT 10)\<lparr>usageLimitPerUser := None\<rparr>) ex_user ex_cart 5
     (usage_counter ex_state) \<and>
   used_count (usage_counter ex_state) ''A'' (userId ex_user) \<ge> 0 \<and>
   eligible ((ex_coupon ''A'' FLAT 10)\<lparr>usageLimitPerUser := Some 0\<rparr>) ex_user ex_cart 5
     (usage_counter ex_state)"
  by (simp add: eligible_def used_count_def ex_coupon_def ex_state_def ex_user_def)

text \<open>
  C2. For a coupon whose \<^verbatim>\<open>usageLimitPerUser\<close> is set to \<open>N\<close>, that is to a value
  other than \<^verbatim>\<open>None\<close> and 0, and a user, cart and day for which the coupon without its
  usage limit is eligible (the day is in the window and every other rule passes):
  \<^verbatim>\<open>eligible\<close> returns \<^verbatim>\<open>False\<close> exactly when the ledger count of the coupon's code
  and the user is at least \<open>N\<close>, and \<^verbatim>\<open>True\<close> otherwise, so also at the count
  \<open>N - 1\<close>. A limit of 0 is not set: \<^verbatim>\<open>eligible\<close> then returns \<^verbatim>\<open>True\<close> whatever
  the count.
\<close>

theorem usage_limit_nonzero:
  assumes "usageLimitPerUser c = Some N"
    and "eligible (c\<lparr>usageLimitPerUser := None\<rparr>) u ct today uc"
  shows "(N \<noteq> 0 \<longrightarrow>
            (\<not> eligible c u ct today uc) = (N \<le> used_count uc (code c) (userId u))) \<and>
         (N \<noteq> 0 \<and> used_count uc (code c) (userId u) = N - 1 \<longrightarrow> eligible c u ct today uc) \<and>
         (N = 0 \<longrightarrow> eligible c u ct today uc)"
  using assms by (auto simp: eligible_def split: if_splits)

theorem usage_limit_nonzero_witness:
  "eligible ((ex_coupon ''A'' FLAT 10)\<lparr>usageLimitPerUser := Some 1\<rparr>) ex_user ex_cart 5
     (usage_counter ex_state) \<and>
   \<not> eligible ((ex_coupon ''A'' FLAT 10)\<lparr>usageLimitPerUser := Some 1\<rparr>) ex_user ex_cart 5
     [''A'' \<mapsto> [''u1'' \<mapsto> 1]]"
proof -
  let ?c = "(ex_coupon ''A'' FLAT 10)\<lparr>usageLimitPerUser := Some 1\<rparr>"
  have lim: "usageLimitPerUser ?c = Some 1" by simp
  have rest: "eligible (?c\<lparr>usageLimitPerUser := None\<rparr>) ex_user ex_cart 5 uc" for uc
    by (simp add: eligible_def ex_coupon_def)
  have k: "code ?c = ''A''" "userId ex_user = ''u1''"
    by (simp_all add: ex_coupon_def ex_user_def)
  have "eligible ?c ex_user ex_cart 5 (usage_counter ex_state)"
    using usage_limit_nonzero [OF lim rest, of "usage_counter ex_state"]
    by (simp add: k used_count_def ex_state_def)
  moreover have "\<not> eligible ?c ex_user ex_cart 5 [''A'' \<mapsto> [''u1'' \<mapsto> 1]]"
    using usage_limit_nonzero [OF lim rest, of "[''A'' \<mapsto> [''u1'' \<mapsto> 1]]"]
    by (simp add: k used_count_def)
  ultimately show ?thesis by simp
qed

text \<open>
  C3. \<^verbatim>\<open>eligible\<close> returns \<^verbatim>\<open>False\<close> on every day before \<^verbatim>\<open>startDate\<close> or after
  \<^verbatim>\<open>endDate\<close>, whatever the other inputs. On a day of the window, both ends included,
  the date test passes: the answer is that of the same coupon with the window set to that
  day alone. In particular a coupon with no rule set and no usage limit is eligible on its
  start date and on its end date, when the start is not after the end.
\<close>

theorem eligible_date_window:
  "(today < startDate c \<or> endDate c < today \<longrightarrow> \<not> eligible c u ct today uc) \<and>
   (startDate c \<le> today \<and> today \<le> endDate c \<longrightarrow>
      eligible c u ct today uc
        = eligible (c\<lparr>startDate := today, endDate := today\<rparr>) u ct today uc) \<and>
   (startDate c \<le> endDate c \<and> eligibility c = None \<and> usageLimitPerUser c = None \<longrightarrow>
      eligible c u ct (startDate c) uc \<and> eligible c u ct (endDate c) uc)"
  by (simp add: eligible_conj cong: option.case_cong)

theorem eligible_date_window_witness:
  "\<not> eligible (ex_coupon ''A'' FLAT 10) ex_user ex_cart 0 (usage_counter ex_state) \<and>
   \<not> eligible (ex_coupon ''A'' FLAT 10) ex_user ex_cart 11 (usage_counter ex_state) \<and>
   eligible (ex_coupon ''A'' FLAT 10) ex_user ex_cart 1 (usage_counter ex_state) \<and>
   eligible (ex_coupon ''A'' FLAT 10) ex_user ex_cart 10 (usage_counter ex_state)"
proof -
  let ?c = "ex_coupon ''A'' FLAT 10"
  have d: "startDate ?c = 1" "endDate ?c = 10" "eligibility ?c = None"
    "usageLimitPerUser ?c = None"
    by (simp_all add: ex_coupon_def)
  have "\<not> eligible ?c ex_user ex_cart 0 (usage_counter ex_state)"
    using eligible_date_window [of 0 ?c ex_user ex_cart "usage_counter ex_state"]
    by (simp add: d)
  moreover have "\<not> eligible ?c ex_user ex_cart 11 (usage_counter ex_state)"
    using eligible_date_window [of 11 ?c ex_user ex_cart "usage_counter ex_state"]
    by (simp add: d)
  moreover have "eligible ?c ex_user ex_cart 1 (usage_counter ex_state) \<and>
      eligible ?c ex_user ex_cart 10 (usage_counter ex_state)"
    using eligible_date_window [of 5 ?c ex_user ex_cart "usage_counter ex_state"]
    by (simp add: d)
  ultimately show ?thesis by simp
qed

text \<open>
  C4. For each of the nine rules of a rule set, \<^verbatim>\<open>eligible\<close> returns the same answer
  for the value 0 (the four numeric floors), \<^verbatim>\<open>False\<close> (\<^verbatim>\<open>firstOrderOnly\<close>) or the empty
  list (the four lists) as for the same coupon with that rule absent.
\<close>

theorem sentinel_rule_is_absent:
  "eligible (c\<lparr>eligibility := Some (e\<lparr>minLifetimeSpend := Some 0\<rparr>)\<rparr>) u ct today uc
     = eligible (c\<lparr>eligibility := Some (e\<lparr>minLifetimeSpend := None\<rparr>)\<rparr>) u ct today uc \<and>
   eligible (c\<lparr>eligibility := Some (e\<lparr>minOrdersPlaced := Some 0\<rparr>)\<rparr>) u ct today uc
     = eligible (c\<lparr>eligibility := Some (e\<lparr>minOrdersPlaced := None\<rparr>)\<rparr>) u ct today uc \<and>
   eligible (c\<lparr>eligibility := Some (e\<lparr>minCartValue := Some 0\<rparr>)\<rparr>) u ct today uc
     = eligible (c\<lparr>eligibility := Some (e\<lparr>minCartValue := None\<rparr>)\<rparr>) u ct today uc \<and>
   eligible (c\<lparr>eligibility := Some (e\<lparr>minItemsCount := Some 0\<rparr>)\<rparr>) u ct today uc
     = eligible (c\<lparr>eligibility := Some (e\<lparr>minItemsCount := None\<rparr>)\<rparr>) u ct today uc \<and>
   eligible (c\<lparr>eligibility := Some (e\<lparr>firstOrderOnly := Some False\<rparr>)\<rparr>) u ct today uc
     = eligible (c\<lparr>eligibility := Some (e\<lparr>firstOrderOnly := None\<rparr>)\<rparr>) u ct today uc \<and>
   eligible (c\<lparr>eligibility := Some (e\<lparr>allowedUserTiers := Some []\<rparr>)\<rparr>) u ct today uc
     = eligible (c\<lparr>eligibility := Some (e\<lparr>allowedUserTiers := None\<rparr>)\<rparr>) u ct today uc \<and>
   eligible (c\<lparr>eligibility := Some (e\<lparr>allowedCountries := Some []\<rparr>)\<rparr>) u ct today uc
     = eligible (c\<lparr>eligibility := Some (e\<lparr>allowedCountries := None\<rparr>)\<rparr>) u ct today uc \<and>
   eligible (c\<lparr>eligibility := Some (e\<lparr>applicableCategories := Some []\<rparr>)\<rparr>) u ct today uc
     = eligible (c\<lparr>eligibility := Some (e\<lparr>applicableCategories := None\<rparr>)\<rparr>) u ct today uc \<and>
   eligible (c\<lparr>eligibility := Some (e\<lparr>excludedCategories := Some []\<rparr>)\<rparr>) u ct today uc
     = eligible (c\<lparr>eligibility := Some (e\<lparr>excludedCategories := None\<rparr>)\<rparr>) u ct today uc"
  by (simp add: eligible_conj rules_pass_conj cong: option.case_cong)

text \<open>
  C7, as the specification states it, fails for a user with a negative \<^verbatim>\<open>ordersPlaced\<close>, which
  the type \<^verbatim>\<open>int\<close> of the field admits: the test is \<^verbatim>\<open>user.ordersPlaced > 0\<close>, so the
  coupon is eligible at \<open>- 1\<close>.
\<close>

theorem first_order_only_counterexample:
  "firstOrderOnly (ex_rules\<lparr>firstOrderOnly := Some True\<rparr>) = Some True \<and>
   ordersPlaced (ex_user\<lparr>ordersPlaced := - 1\<rparr>) \<noteq> 0 \<and>
   eligible ((ex_coupon ''F'' FLAT 10)\<lparr>eligibility := Some (ex_rules\<lparr>firstOrderOnly := None\<rparr>)\<rparr>)
     (ex_user\<lparr>ordersPlaced := - 1\<rparr>) ex_cart 5 (usage_counter ex_state) \<and>
   eligible
     ((ex_coupon ''F'' FLAT 10)\<lparr>eligibility := Some (ex_rules\<lparr>firstOrderOnly := Some True\<rparr>)\<rparr>)
     (ex_user\<lparr>ordersPlaced := - 1\<rparr>) ex_cart 5 (usage_counter ex_state)"
  by (simp add: eligible_conj rules_pass_conj ex_coupon_def ex_rules_def ex_user_def)

text \<open>
  C7, amended. For a coupon whose rule set has \<^verbatim>\<open>firstOrderOnly\<close> true, and a user, cart
  and day for which the coupon without that rule is eligible: \<^verbatim>\<open>eligible\<close> returns
  \<^verbatim>\<open>True\<close> exactly when \<^verbatim>\<open>ordersPlaced\<close> is at most 0; so, among the users whose
  \<^verbatim>\<open>ordersPlaced\<close> is not negative, exactly when it is 0.
\<close>

theorem first_order_only:
  assumes "eligibility c = Some e"
    and "firstOrderOnly e = Some True"
    and "eligible (c\<lparr>eligibility := Some (e\<lparr>firstOrderOnly := None\<rparr>)\<rparr>) u ct today uc"
  shows "eligible c u ct today uc = (ordersPlaced u \<le> 0) \<and>
         (0 \<le> ordersPlaced u \<longrightarrow> eligible c u ct today uc = (ordersPlaced u = 0))"
proof -
  have "eligible c u ct today uc = (ordersPlaced u \<le> 0)"
    using assms by (simp add: eligible_conj rules_pass_conj not_less cong: option.case_cong)
  then show ?thesis by auto
qed

theorem first_order_only_witness:
  "eligible
     ((ex_coupon ''F'' FLAT 10)\<lparr>eligibility := Some (ex_rules\<lparr>firstOrderOnly := Some True\<rparr>)\<rparr>)
     ex_user ex_cart 5 (usage_counter ex_state) \<and>
   \<not> eligible
     ((ex_coupon ''F'' FLAT 10)\<lparr>eligibility := Some (ex_rules\<lparr>firstOrderOnly := Some True\<rparr>)\<rparr>)
     (ex_user\<lparr>ordersPlaced := 3\<rparr>) ex_cart 5 (usage_counter ex_state)"
proof -
  let ?e = "ex_rules\<lparr>firstOrderOnly := Some True\<rparr>"
  let ?c = "(ex_coupon ''F'' FLAT 10)\<lparr>eligibility := Some ?e\<rparr>"
  have e: "eligibility ?c = Some ?e" and f: "firstOrderOnly ?e = Some True"
    by simp_all
  have rest: "eligible (?c\<lparr>eligibility := Some (?e\<lparr>firstOrderOnly := None\<rparr>)\<rparr>)
                (ex_user\<lparr>ordersPlaced := n\<rparr>) ex_cart 5 (usage_counter ex_state)" for n
    by (simp add: eligible_conj rules_pass_conj ex_coupon_def ex_rules_def ex_user_def)
  have u: "ex_user\<lparr>ordersPlaced := 0\<rparr> = ex_user"
    by (simp add: ex_user_def)
  have "eligible ?c (ex_user\<lparr>ordersPlaced := 0\<rparr>) ex_cart 5 (usage_counter ex_state)"
    using first_order_only [OF e f rest, of 0] by simp
  moreover have
    "\<not> eligible ?c (ex_user\<lparr>ordersPlaced := 3\<rparr>) ex_cart 5 (usage_counter ex_state)"
    using first_order_only [OF e f rest, of 3] by simp
  ultimately show ?thesis by (simp add: u)
qed

section \<open>Discounts\<close>

lemma py_min_eq_min: "py_min a b = min a b"
  by (simp add: py_min_def min_def)

text \<open>
  C5. For a PERCENT coupon \<^verbatim>\<open>get_discount\<close> returns the smaller of
  \<^verbatim>\<open>discountValue / 100 * total\<close> and \<^verbatim>\<open>maxDiscountAmount\<close> when the cap is set and not
  0, and \<^verbatim>\<open>discountValue / 100 * total\<close> when the cap is absent or 0.
\<close>

theorem percent_discount:
  "discountType c = PERCENT \<longrightarrow>
     (maxDiscountAmount c = Some m \<and> m \<noteq> 0 \<longrightarrow>
        get_discount c t = min (discountValue c / 100 * t) m) \<and>
     (maxDiscountAmount c = None \<or> maxDiscountAmount c = Some 0 \<longrightarrow>
        get_discount c t = discountValue c / 100 * t)"
  by (auto simp: get_discount_def Let_def py_min_eq_min)

theorem percent_discount_witness:
  "get_discount ((ex_coupon ''P'' PERCENT 20)\<lparr>maxDiscountAmount := Some 15\<rparr>) 100 = 15 \<and>
   get_discount (ex_coupon ''P'' PERCENT 20) 100 = 20 \<and>
   get_discount ((ex_coupon ''P'' PERCENT 20)\<lparr>maxDiscountAmount := Some 0\<rparr>) 100 = 20"
proof -
  have "get_discount ((ex_coupon ''P'' PERCENT 20)\<lparr>maxDiscountAmount := Some 15\<rparr>) 100 = 15"
    using percent_discount
      [of "(ex_coupon ''P'' PERCENT 20)\<lparr>maxDiscountAmount := Some 15\<rparr>" 15 100]
    by (simp add: ex_coupon_def)
  moreover have "get_discount (ex_coupon ''P'' PERCENT 20) 100 = 20"
    using percent_discount [of "ex_coupon ''P'' PERCENT 20" 0 100]
    by (simp add: ex_coupon_def)
  moreover have
    "get_discount ((ex_coupon ''P'' PERCENT 20)\<lparr>maxDiscountAmount := Some 0\<rparr>) 100 = 20"
    using percent_discount
      [of "(ex_coupon ''P'' PERCENT 20)\<lparr>maxDiscountAmount := Some 0\<rparr>" 0 100]
    by (simp add: ex_coupon_def)
  ultimately show ?thesis by simp
qed

text \<open>
  C6, as the specification states it, fails for a PERCENT coupon of negative \<^verbatim>\<open>discountValue\<close>,
  which the source accepts: at \<open>- 10\<close> per cent the discount is 0 for the total 0 and
  \<open>- 10\<close> for the total 100.
\<close>

theorem percent_monotone_counterexample:
  "discountType (ex_coupon ''N'' PERCENT (- 10)) = PERCENT \<and> (0::real) \<le> 100 \<and>
   get_discount (ex_coupon ''N'' PERCENT (- 10)) 0 = 0 \<and>
   get_discount (ex_coupon ''N'' PERCENT (- 10)) 100 = - 10 \<and>
   \<not> get_discount (ex_coupon ''N'' PERCENT (- 10)) 0
       \<le> get_discount (ex_coupon ''N'' PERCENT (- 10)) 100"
  by (simp add: get_discount_def ex_coupon_def)

text \<open>
  C6, amended. For a PERCENT coupon whose \<^verbatim>\<open>discountValue\<close> is finite and not negative,
  with no cap or with a finite one, \<^verbatim>\<open>get_discount\<close> is monotone on the finite cart
  totals: for finite totals \<open>t1 \<le> t2\<close> the discount at \<open>t1\<close> is at most the discount
  at \<open>t2\<close>. The values of the model are the finite ones. The statement says nothing of a
  total, a value or a cap that is \<^verbatim>\<open>inf\<close> or \<^verbatim>\<open>nan\<close>: in the source
  \<^verbatim>\<open>(0.0 / 100) * inf\<close> is \<^verbatim>\<open>nan\<close>, and no comparison with \<^verbatim>\<open>nan\<close> holds.
\<close>

theorem percent_monotone:
  assumes "discountType c = PERCENT"
    and "0 \<le> discountValue c"
    and "t1 \<le> t2"
  shows "get_discount c t1 \<le> get_discount c t2"
proof -
  have "discountValue c / 100 * t1 \<le> discountValue c / 100 * t2"
    using assms(2,3) by (intro mult_left_mono) simp_all
  then show ?thesis
    using assms(1) by (auto simp: get_discount_def Let_def py_min_def split: option.splits)
qed

theorem percent_monotone_witness:
  "get_discount ((ex_coupon ''P'' PERCENT 20)\<lparr>maxDiscountAmount := Some 15\<rparr>) 50
     \<le> get_discount ((ex_coupon ''P'' PERCENT 20)\<lparr>maxDiscountAmount := Some 15\<rparr>) 100 \<and>
   get_discount ((ex_coupon ''P'' PERCENT 20)\<lparr>maxDiscountAmount := Some 15\<rparr>) 50 = 10"
proof -
  let ?c = "(ex_coupon ''P'' PERCENT 20)\<lparr>maxDiscountAmount := Some 15\<rparr>"
  have "discountType ?c = PERCENT" "0 \<le> discountValue ?c" "(50::real) \<le> 100"
    by (simp_all add: ex_coupon_def)
  then have "get_discount ?c 50 \<le> get_discount ?c 100"
    by (rule percent_monotone)
  moreover have "get_discount ?c 50 = 10"
    by (simp add: get_discount_def py_min_def ex_coupon_def)
  ultimately show ?thesis by simp
qed

text \<open>
  The monotonicity does not rest on exact arithmetic: it holds under every rounding that
  is monotone and keeps 0, as rounding a finite float to the nearest one does.
\<close>

lemma get_discount_rounded_exact: "get_discount_rounded (\<lambda>x. x) c t = get_discount c t"
  by (simp add: get_discount_rounded_def get_discount_def)

lemma percent_monotone_rounded:
  assumes "mono rnd" and "rnd 0 = 0"
    and "discountType c = PERCENT"
    and "0 \<le> discountValue c"
    and "t1 \<le> t2"
  shows "get_discount_rounded rnd c t1 \<le> get_discount_rounded rnd c t2"
proof -
  have "rnd 0 \<le> rnd (discountValue c / 100)"
    by (rule monoD [OF assms(1)]) (use assms(4) in simp)
  then have "0 \<le> rnd (discountValue c / 100)"
    using assms(2) by simp
  then have "rnd (discountValue c / 100) * t1 \<le> rnd (discountValue c / 100) * t2"
    using assms(5) by (simp add: mult_left_mono)
  then have "rnd (rnd (discountValue c / 100) * t1) \<le> rnd (rnd (discountValue c / 100) * t2)"
    by (rule monoD [OF assms(1)])
  then show ?thesis
    using assms(3)
    by (auto simp: get_discount_rounded_def Let_def py_min_def split: option.splits)
qed

section \<open>The storage\<close>

lemma dict_set_new: "k \<notin> set (dict_keys d) \<Longrightarrow> dict_set d k v = d @ [(k, v)]"
  by (induction d) (auto simp: dict_keys_def)

lemma dict_keys_dict_set: "set (dict_keys (dict_set d k v)) = insert k (set (dict_keys d))"
  by (induction d) (auto simp: dict_keys_def)

text \<open>
  C8. \<^verbatim>\<open>create_coupon\<close> raises exactly when the coupon's code is a key of the catalog; it
  then raises the exception 400 ``Coupon already exists'' and leaves the catalog and the
  usage ledger as they were. Otherwise it answers with the coupon, enters the coupon last
  in the catalog under its code, and sets the ledger's entry for that code to the empty
  map.
\<close>

theorem create_coupon_duplicate:
  "((\<exists>e. fst (create_coupon c s) = Inl e) = dict_contains (code c) (coupons s)) \<and>
   (dict_contains (code c) (coupons s) \<longrightarrow>
      fst (create_coupon c s) = Inl (HTTPException 400 ''Coupon already exists'') \<and>
      coupons (snd (create_coupon c s)) = coupons s \<and>
      usage_counter (snd (create_coupon c s)) = usage_counter s \<and>
      snd (create_coupon c s) = s) \<and>
   (\<not> dict_contains (code c) (coupons s) \<longrightarrow>
      fst (create_coupon c s) = Inr (Created ''Coupon created'' c) \<and>
      coupons (snd (create_coupon c s)) = coupons s @ [(code c, c)] \<and>
      map_of (coupons (snd (create_coupon c s))) (code c) = Some c \<and>
      usage_counter (snd (create_coupon c s)) = (usage_counter s)(code c \<mapsto> Map.empty))"
proof -
  have "map_of (d @ [(k, v)]) k = Some v" if "k \<notin> set (dict_keys d)" for d :: "(string \<times> Coupon) list" and k v
    using that by (simp add: dict_keys_def map_add_Some_iff map_of_eq_None_iff)
  then show ?thesis
    by (auto simp: create_coupon_def dict_contains_def dict_set_new)
qed

theorem create_coupon_duplicate_witness:
  "fst (create_coupon (ex_coupon ''A'' PERCENT 5) ex_state)
     = Inl (HTTPException 400 ''Coupon already exists'') \<and>
   snd (create_coupon (ex_coupon ''A'' PERCENT 5) ex_state) = ex_state \<and>
   fst (create_coupon (ex_coupon ''C'' PERCENT 5) ex_state)
     = Inr (Created ''Coupon created'' (ex_coupon ''C'' PERCENT 5)) \<and>
   dict_keys (coupons (snd (create_coupon (ex_coupon ''C'' PERCENT 5) ex_state)))
     = [''A'', ''B'', ''C''] \<and>
   usage_counter (snd (create_coupon (ex_coupon ''C'' PERCENT 5) ex_state)) ''C''
     = Some Map.empty"
proof -
  have a: "dict_contains (code (ex_coupon ''A'' PERCENT 5)) (coupons ex_state)"
    by (simp add: dict_contains_def dict_keys_def ex_coupon_def ex_state_def)
  have c: "\<not> dict_contains (code (ex_coupon ''C'' PERCENT 5)) (coupons ex_state)"
    by (simp add: dict_contains_def dict_keys_def ex_coupon_def ex_state_def)
  have k: "code (ex_coupon ''C'' PERCENT 5) = ''C''"
    by (simp add: ex_coupon_def)
  have ks: "dict_keys (coupons ex_state) = [''A'', ''B'']"
    by (simp add: dict_keys_def ex_state_def)
  from create_coupon_duplicate [of "ex_coupon ''A'' PERCENT 5" ex_state] a
  have "fst (create_coupon (ex_coupon ''A'' PERCENT 5) ex_state)
          = Inl (HTTPException 400 ''Coupon already exists'') \<and>
        snd (create_coupon (ex_coupon ''A'' PERCENT 5) ex_state) = ex_state"
    by blast
  moreover
  from create_coupon_duplicate [of "ex_coupon ''C'' PERCENT 5" ex_state] c
  have "fst (create_coupon (ex_coupon ''C'' PERCENT 5) ex_state)
          = Inr (Created ''Coupon created'' (ex_coupon ''C'' PERCENT 5)) \<and>
        coupons (snd (create_coupon (ex_coupon ''C'' PERCENT 5) ex_state))
          = coupons ex_state @ [(code (ex_coupon ''C'' PERCENT 5), ex_coupon ''C'' PERCENT 5)] \<and>
        usage_counter (snd (create_coupon (ex_coupon ''C'' PERCENT 5) ex_state))
          = (usage_counter ex_state)(code (ex_coupon ''C'' PERCENT 5) \<mapsto> Map.empty)"
    by blast
  then have "fst (create_coupon (ex_coupon ''C'' PERCENT 5) ex_state)
          = Inr (Created ''Coupon created'' (ex_coupon ''C'' PERCENT 5)) \<and>
        dict_keys (coupons (snd (create_coupon (ex_coupon ''C'' PERCENT 5) ex_state)))
          = [''A'', ''B'', ''C''] \<and>
        usage_counter (snd (create_coupon (ex_coupon ''C'' PERCENT 5) ex_state)) ''C''
          = Some Map.empty"
    using ks by (simp add: k dict_keys_def)
  ultimately show ?thesis by simp
qed

text \<open>
  C9. \<^verbatim>\<open>list_all\<close> and \<^verbatim>\<open>best_coupon\<close> leave the storage as it was, catalog and
  ledger, for every storage, request and day; a request that changes the storage is a
  \<^verbatim>\<open>create_coupon\<close>.
\<close>

theorem reads_do_not_write:
  "snd (list_all s) = s \<and> snd (best_coupon req today s) = s \<and>
   coupons (snd (best_coupon req today s)) = coupons s \<and>
   usage_counter (snd (best_coupon req today s)) = usage_counter s \<and>
   (handle r s \<noteq> s \<longrightarrow> (\<exists>c. r = CreateCoupon c))"
  by (cases r) (simp_all add: list_all_def best_coupon_def Let_def)

theorem reads_do_not_write_witness:
  "snd (list_all ex_state) = ex_state \<and> snd (best_coupon ex_request 5 ex_state) = ex_state \<and>
   handle ListAll ex_state = ex_state \<and> handle (BestCoupon ex_request 5) ex_state = ex_state \<and>
   handle (CreateCoupon (ex_coupon ''C'' PERCENT 5)) ex_state \<noteq> ex_state"
proof -
  have "length (coupons (handle (CreateCoupon (ex_coupon ''C'' PERCENT 5)) ex_state)) = 3"
    by (simp add: create_coupon_def dict_contains_def dict_keys_def ex_coupon_def ex_state_def)
  moreover have "length (coupons ex_state) = 2"
    by (simp add: ex_state_def)
  ultimately have "handle (CreateCoupon (ex_coupon ''C'' PERCENT 5)) ex_state \<noteq> ex_state"
    by auto
  then show ?thesis
    using reads_do_not_write [of ex_state ex_request 5 ListAll]
      reads_do_not_write [of ex_state ex_request 5 "BestCoupon ex_request 5"]
    by auto
qed

lemma handle_keys:
  "set (dict_keys (coupons s)) = dom (usage_counter s)
     \<Longrightarrow> set (dict_keys (coupons (handle r s))) = dom (usage_counter (handle r s))"
  by (cases r)
    (auto simp: create_coupon_def list_all_def best_coupon_def Let_def dict_keys_dict_set)

lemma run_keys:
  "set (dict_keys (coupons s)) = dom (usage_counter s)
     \<Longrightarrow> set (dict_keys (coupons (run rs s))) = dom (usage_counter (run rs s))"
  by (induction rs arbitrary: s) (simp_all add: handle_keys)

text \<open>
  In every storage built by requests from the empty one, each coupon is stored under its
  own code, so the codes of the enumerated coupons are distinct.
\<close>

lemma handle_codes:
  "map code (dict_values (coupons s)) = dict_keys (coupons s) \<and> distinct (dict_keys (coupons s))
     \<Longrightarrow> map code (dict_values (coupons (handle r s))) = dict_keys (coupons (handle r s)) \<and>
         distinct (dict_keys (coupons (handle r s)))"
  by (cases r)
    (auto simp: create_coupon_def list_all_def best_coupon_def Let_def dict_contains_def
      dict_set_new dict_keys_def dict_values_def)

lemma run_codes:
  "map code (dict_values (coupons s)) = dict_keys (coupons s) \<and> distinct (dict_keys (coupons s))
     \<Longrightarrow> map code (dict_values (coupons (run rs s))) = dict_keys (coupons (run rs s)) \<and>
         distinct (dict_keys (coupons (run rs s)))"
proof (induction rs arbitrary: s)
  case Nil
  then show ?case by simp
next
  case (Cons r rs)
  from Cons.IH [OF handle_codes [OF Cons.prems]] show ?case by simp
qed

lemma catalog_codes_distinct:
  "distinct (map code (dict_values (coupons (run rs init_state))))"
proof -
  have "map code (dict_values (coupons init_state)) = dict_keys (coupons init_state) \<and>
        distinct (dict_keys (coupons init_state))"
    by (simp add: init_state_def dict_keys_def dict_values_def)
  from run_codes [OF this, of rs] show ?thesis by simp
qed

text \<open>
  C10. After every sequence of requests from the empty storage, the keys of the usage
  ledger are the keys of the coupon catalog.
\<close>

theorem ledger_keys_are_catalog_keys:
  "set (dict_keys (coupons (run rs init_state))) = dom (usage_counter (run rs init_state))"
  by (rule run_keys) (simp add: init_state_def dict_keys_def)

end
